theory Spec2Isabelle
  imports Complex_Main
begin

section \<open>Strings\<close>

text \<open>
  Strings are lists of code units; the model keeps to the code units below 256.
  \<open>String.prototype.trim\<close> strips white space and line terminators from both ends:
  TAB, LF, VT, FF, CR, SP and NBSP are the ones in that range.
\<close>

definition is_white_space :: "char \<Rightarrow> bool" where
  "is_white_space c =
     (c \<in> set [CHR 0x09, CHR 0x0A, CHR 0x0B, CHR 0x0C, CHR 0x0D, CHR 0x20, CHR 0xA0])"

definition trim :: "string \<Rightarrow> string" where
  "trim s = rev (dropWhile is_white_space (rev (dropWhile is_white_space s)))"

definition startsWith :: "string \<Rightarrow> string \<Rightarrow> bool" where
  "startsWith s p = (take (length p) s = p)"

text \<open>\<open>Array.prototype.join\<close> on an array of strings.\<close>

fun join :: "string \<Rightarrow> string list \<Rightarrow> string" where
  "join sep [] = []"
| "join sep [x] = x"
| "join sep (x # y # ys) = x @ sep @ join sep (y # ys)"

text \<open>Decimal rendering of a number in a template literal.\<close>

definition digit_char :: "nat \<Rightarrow> char" where
  "digit_char d = char_of (48 + d)"

fun decimal :: "nat \<Rightarrow> string" where
  "decimal n = (if n < 10 then [digit_char n] else decimal (n div 10) @ [digit_char (n mod 10)])"

declare decimal.simps [simp del]

subsection \<open>The prompt marker and \<open>String.prototype.replace\<close>\<close>

definition prompt_marker :: string where
  "prompt_marker = ''<!--prompt-content-->''"

text \<open>
  The first match of a literal pattern: the text before it and the text after it.
\<close>

fun first_match :: "string \<Rightarrow> string \<Rightarrow> (string \<times> string) option" where
  "first_match p [] = (if p = [] then Some ([], []) else None)"
| "first_match p (c # cs) =
     (if startsWith (c # cs) p then Some ([], drop (length p) (c # cs))
      else map_option (\<lambda>(b, a). (c # b, a)) (first_match p cs))"

text \<open>
  The replacement argument of \<open>replace\<close> is a string, so its dollar patterns are
  expanded: \<open>$$\<close> is a dollar, \<open>$&\<close> the match, \<open>$`\<close> the text before the match
  and \<open>$'\<close> the text after it. The pattern has no capture group, so \<open>$1\<close>, \<open>$<\<close> and
  any other dollar stay as they are.
\<close>

fun get_substitution :: "string \<Rightarrow> string \<Rightarrow> string \<Rightarrow> string \<Rightarrow> string" where
  "get_substitution matched before after [] = []"
| "get_substitution matched before after (c # rest) =
     (if c = CHR 0x24 then
        (case rest of
           [] \<Rightarrow> [c]
         | d # rest' \<Rightarrow>
             if d = CHR 0x24 then CHR 0x24 # get_substitution matched before after rest'
             else if d = CHR 0x26 then matched @ get_substitution matched before after rest'
             else if d = CHR 0x60 then before @ get_substitution matched before after rest'
             else if d = CHR 0x27 then after @ get_substitution matched before after rest'
             else c # get_substitution matched before after rest)
      else c # get_substitution matched before after rest)"

text \<open>\<open>template.replace(/<!--prompt-content-->/, prompt)\<close>: the first match only.\<close>

definition replace_prompt_content :: "string \<Rightarrow> string \<Rightarrow> string" where
  "replace_prompt_content template prompt =
     (case first_match prompt_marker template of
        None \<Rightarrow> template
      | Some (before, after) \<Rightarrow>
          before @ get_substitution prompt_marker before after prompt @ after)"

section \<open>Data\<close>

text \<open>A parsed JSON value; \<open>Array.isArray\<close> holds of \<open>JArr\<close> only.\<close>

datatype json =
    JNull
  | JBool bool
  | JNum rat
  | JStr string
  | JArr "json list"
  | JObj "(string \<times> json) list"

fun isArray :: "json \<Rightarrow> bool" where
  "isArray (JArr xs) = True"
| "isArray _ = False"

text \<open>\<open>StepSchema = z.enum(["instances", "styles"])\<close>.\<close>

datatype step = Instances | Styles

fun step_name :: "step \<Rightarrow> string" where
  "step_name Instances = ''instances''"
| "step_name Styles = ''styles''"

definition StepSchema :: "string \<Rightarrow> step option" where
  "StepSchema s =
     (if s = ''instances'' then Some Instances
      else if s = ''styles'' then Some Styles
      else None)"

text \<open>
  \<open>CreateChatCompletionResponse\<close>, as far as the chain reads it:
  \<open>completion.choices[0].message?.content\<close>. The message of a choice and the content
  of a message are optional.
\<close>

record response_message =
  response_content :: "string option"

record choice =
  choice_message :: "response_message option"

record completion =
  choices :: "choice list"

text \<open>Thrown values. The handlers of this file read their \<open>message\<close> only.\<close>

datatype error =
    Error (message: string)
  | SyntaxError (message: string)
  | TypeError (message: string)
  | ZodError (message: string)

text \<open>
  The markdown tree of \<open>mdast-util-from-markdown\<close>: a \<open>code\<close> node has a language tag
  (absent for an untagged fence) and a literal value; every other node is a parent
  with children or a leaf.
\<close>

datatype mdast =
    Code "string option" string
  | Parent "mdast list"
  | Leaf

text \<open>\<open>visit(tree, "code", f)\<close> calls \<open>f\<close> on the code nodes in document order.\<close>

fun code_nodes :: "mdast \<Rightarrow> (string option \<times> string) list" where
  "code_nodes (Code lang v) = [(lang, v)]"
| "code_nodes (Parent cs) = concat (map code_nodes cs)"
| "code_nodes Leaf = []"

section \<open>The environment\<close>

text \<open>
  A request to the chat-completion endpoint: the two credential headers and the JSON body
  \<open>{model, messages, temperature: 0, max_tokens}\<close>.
\<close>

record completion_request =
  authorization :: string
  openai_organization :: string
  body_model :: string
  body_messages :: "json list"
  body_temperature :: nat
  body_max_tokens :: nat

text \<open>
  What \<open>fetch\<close> resolves to: \<open>ok\<close>, \<open>status\<close>, \<open>statusText\<close> and the outcome of
  \<open>response.json()\<close> (\<open>Inl\<close> the message of the error it rejects with).
\<close>

record http_response =
  ok :: bool
  status :: nat
  statusText :: string
  json_body :: "string + completion"

text \<open>The issues the form schema can raise, in the order of the schema's keys.\<close>

datatype issue =
    PromptRequired
  | PromptNotString
  | PromptTooBig
  | StepInvalid nat
  | MessageRequired nat

text \<open>
  Everything the module reads from outside itself: the feature flag, the process
  environment, and the libraries it calls. A library that throws returns \<open>Inl\<close> with the
  message of what it throws. \<open>fetch\<close> is given the number of requests sent before, so
  that the service may answer each call differently.
\<close>

record environment =
  isFeatureEnabled_ai :: bool
  NODE_ENV_production :: bool
  OPENAI_KEY :: "string option"
  OPENAI_ORG :: "string option"
  JSON_parse :: "string \<Rightarrow> string + json"
  JSON_stringify :: "json \<Rightarrow> string"
  parseMarkdown :: "string \<Rightarrow> mdast"
  WsEmbedTemplate_parse :: "json \<Rightarrow> string + unit"
  EmbedTemplateStyles_array_parse :: "json \<Rightarrow> string + unit"
  zod_message :: "issue list \<Rightarrow> string"
  fetch :: "nat \<Rightarrow> completion_request \<Rightarrow> string + http_response"
  not_iterable_message :: string
  undefined_property_message :: string

text \<open>What the module does to the outside: the requests it sends and its console lines.\<close>

record trace =
  requests :: "completion_request list"
  console :: "string list"

section \<open>Extraction: \<open>getJSONCodeBlock\<close>\<close>

text \<open>
  The visitor of the code nodes: a block tagged \<open>json\<close> is put in front of the
  candidates (\<open>unshift\<close>), a block with no tag (\<open>!node.lang\<close>: absent or empty) is put
  behind them (\<open>push\<close>), any other block is skipped.
\<close>

definition visit_code :: "string option \<times> string \<Rightarrow> string list \<Rightarrow> string list" where
  "visit_code node codeBlocks =
     (case node of (lang, v) \<Rightarrow>
        if lang = Some ''json'' then trim v # codeBlocks
        else if lang = None \<or> lang = Some [] then codeBlocks @ [trim v]
        else codeBlocks)"

definition collect_code_blocks :: "(string option \<times> string) list \<Rightarrow> string list" where
  "collect_code_blocks nodes = fold visit_code nodes []"

definition getJSONCodeBlock :: "environment \<Rightarrow> string \<Rightarrow> error + json" where
  "getJSONCodeBlock env text =
     (case JSON_parse env (trim text) of
        Inr j \<Rightarrow> Inr j
      | Inl _ \<Rightarrow>
          (let codeBlocks = collect_code_blocks (code_nodes (parseMarkdown env text));
               tail = (if NODE_ENV_production env then [] else [text])
           in case codeBlocks of
                [] \<Rightarrow>
                  Inl (Error (join ''\<newline>\<newline>''
                                ([''Parsing failed'', ''No code blocks found''] @ tail)))
              | c # _ \<Rightarrow>
                  (case JSON_parse env c of
                     Inr j \<Rightarrow> Inr j
                   | Inl _ \<Rightarrow> Inl (Error (join ''\<newline>\<newline>'' ([''Parsing failed''] @ tail))))))"

section \<open>The chain: \<open>getChainForPrompt\<close>\<close>

definition user_message :: "string \<Rightarrow> json" where
  "user_message c = JObj [(''role'', JStr ''user''), (''content'', JStr c)]"

definition assistant_message :: "string \<Rightarrow> json" where
  "assistant_message c = JObj [(''role'', JStr ''assistant''), (''content'', JStr c)]"

text \<open>
  The messages put in front of the step's user message. \<open>messages[i]\<close> is whatever the
  caller supplied: \<open>null\<close> asks for the synthesized history (the previous response as an
  assistant message, when there is one); anything else is spread into the list, which
  works for an array (and a string) and throws a \<open>TypeError\<close> otherwise, also when the
  entry is missing.
\<close>

definition history_for_step :: "environment \<Rightarrow> json list \<Rightarrow> nat \<Rightarrow> (step \<times> string) list \<Rightarrow> error + json list" where
  "history_for_step env messages i responses =
     (if i < length messages then
        (case messages ! i of
           JNull \<Rightarrow>
             Inr (if 0 < i \<and> i - 1 < length responses
                  then [assistant_message (snd (responses ! (i - 1)))] else [])
         | JArr ms \<Rightarrow> Inr ms
         | JStr s \<Rightarrow> Inr (map (\<lambda>c. JStr [c]) s)
         | _ \<Rightarrow> Inl (TypeError (not_iterable_message env)))
      else Inl (TypeError (not_iterable_message env)))"

text \<open>\<open>completion.choices[0].message?.content || ""\<close>\<close>

definition first_choice_content :: "environment \<Rightarrow> completion \<Rightarrow> error + string" where
  "first_choice_content env c =
     (case choices c of
        [] \<Rightarrow> Inl (TypeError (undefined_property_message env))
      | ch # _ \<Rightarrow>
          Inr (case choice_message ch of
                 None \<Rightarrow> []
               | Some m \<Rightarrow> (case response_content m of None \<Rightarrow> [] | Some s \<Rightarrow> s)))"

type_synonym completion_client = "json list \<Rightarrow> trace \<Rightarrow> (error + completion) \<times> trace"

text \<open>
  The loop over the steps, from index \<open>i\<close> with the responses collected so far. The
  loop starts at 0 with no response and stores one response per round, so
  \<open>responses[i] = ...\<close> always writes right behind the last one.
\<close>

function chain_loop :: "environment \<Rightarrow> completion_client \<Rightarrow> string \<Rightarrow> (step \<times> string) list \<Rightarrow> json list \<Rightarrow>
    nat \<Rightarrow> (step \<times> string) list \<Rightarrow> trace \<Rightarrow> (error + (step \<times> string) list) \<times> trace" where
  "chain_loop env client prompt steps messages i responses tr =
     (if i < length steps then
        (case history_for_step env messages i responses of
           Inl e \<Rightarrow> (Inl e, tr)
         | Inr history \<Rightarrow>
             (case client
                     (history @ [user_message (trim (replace_prompt_content (snd (steps ! i)) prompt))])
                     tr of
                (Inl e, tr') \<Rightarrow> (Inl e, tr')
              | (Inr c, tr') \<Rightarrow>
                  (case first_choice_content env c of
                     Inl e \<Rightarrow> (Inl e, tr')
                   | Inr text \<Rightarrow>
                       chain_loop env client prompt steps messages (Suc i)
                         (responses @ [(fst (steps ! i), text)]) tr')))
      else (Inr responses, tr))"
  by pat_completeness auto
termination
  by (relation "measure (\<lambda>(env, client, prompt, steps, messages, i, responses, tr). length steps - i)") auto

declare chain_loop.simps [simp del]

definition getChainForPrompt :: "environment \<Rightarrow> completion_client \<Rightarrow> string \<Rightarrow> (step \<times> string) list \<Rightarrow> json list \<Rightarrow>
    trace \<Rightarrow> (error + (step \<times> string) list) \<times> trace" where
  "getChainForPrompt env client prompt steps messages tr =
     chain_loop env client prompt steps messages 0 [] tr"

section \<open>The orchestrator: \<open>generate\<close>\<close>

datatype model = Gpt_3_5_turbo | Gpt_4

fun model_name :: "model \<Rightarrow> string" where
  "model_name Gpt_3_5_turbo = ''gpt-3.5-turbo''"
| "model_name Gpt_4 = ''gpt-4''"

record OpenAIConfig =
  apiKey :: string
  organization :: string
  model :: model
  maxTokens :: nat

text \<open>
  The request that the completion client of \<open>generate\<close> sends for a list of messages.
\<close>

definition chat_request :: "OpenAIConfig \<Rightarrow> json list \<Rightarrow> completion_request" where
  "chat_request config msgs =
     \<lparr>authorization = ''Bearer '' @ apiKey config,
      openai_organization = organization config,
      body_model = model_name (model config),
      body_messages = msgs,
      body_temperature = 0,
      body_max_tokens = maxTokens config\<rparr>"

text \<open>
  The completion client that \<open>generate\<close> hands to the chain: one \<open>fetch\<close>, recorded in
  the trace, then the parsed body when the response is \<open>ok\<close> and an error
  \<open>status: statusText\<close> otherwise.
\<close>

definition complete_fn :: "environment \<Rightarrow> OpenAIConfig \<Rightarrow> completion_client" where
  "complete_fn env config msgs tr =
     (let tr' = tr\<lparr>requests := requests tr @ [chat_request config msgs]\<rparr>
      in case fetch env (length (requests tr)) (chat_request config msgs) of
           Inl m \<Rightarrow> (Inl (TypeError m), tr')
         | Inr response \<Rightarrow>
             if ok response then
               (case json_body response of
                  Inl m \<Rightarrow> (Inl (SyntaxError m), tr')
                | Inr c \<Rightarrow> (Inr c, tr'))
             else (Inl (Error (decimal (status response) @ '': '' @ statusText response)), tr'))"

definition validators :: "environment \<Rightarrow> step \<Rightarrow> json \<Rightarrow> string + unit" where
  "validators env step =
     (case step of
        Instances \<Rightarrow> WsEmbedTemplate_parse env
      | Styles \<Rightarrow> EmbedTemplateStyles_array_parse env)"

text \<open>The function mapped over the responses: extract, validate, normalise to an array.\<close>

definition shape_response :: "environment \<Rightarrow> step \<times> string \<Rightarrow> error + step \<times> json" where
  "shape_response env r =
     (case r of (step, response) \<Rightarrow>
        (case getJSONCodeBlock env response of
           Inl e \<Rightarrow> Inl e
         | Inr j \<Rightarrow>
             (case validators env step j of
                Inl m \<Rightarrow>
                  Inl (Error (''Invalid '' @ step_name step @ '' generation. '' @
                              (if NODE_ENV_production env then []
                               else JSON_stringify env j @ ''\<newline>\<newline>'' @ m)))
              | Inr _ \<Rightarrow> Inr (step, if isArray j then j else JArr [j]))))"

text \<open>\<open>responses.map(...)\<close>, which the first throw leaves.\<close>

fun shape_responses :: "environment \<Rightarrow> (step \<times> string) list \<Rightarrow> error + (step \<times> json) list" where
  "shape_responses env [] = Inr []"
| "shape_responses env (r # rs) =
     (case shape_response env r of
        Inl e \<Rightarrow> Inl e
      | Inr x \<Rightarrow>
          (case shape_responses env rs of
             Inl e \<Rightarrow> Inl e
           | Inr xs \<Rightarrow> Inr (x # xs)))"

text \<open>The body of the \<open>try\<close> of \<open>generate\<close>.\<close>

definition generate_try :: "environment \<Rightarrow> string \<Rightarrow> (step \<times> string) list \<Rightarrow> json list \<Rightarrow> OpenAIConfig \<Rightarrow>
    trace \<Rightarrow> (error + (step \<times> json) list) \<times> trace" where
  "generate_try env userPrompt steps messages config tr =
     (case getChainForPrompt env (complete_fn env config) userPrompt steps messages tr of
        (Inl e, tr') \<Rightarrow> (Inl e, tr')
      | (Inr responses, tr') \<Rightarrow> (shape_responses env responses, tr'))"

definition generate :: "environment \<Rightarrow> string \<Rightarrow> (step \<times> string) list \<Rightarrow> json list \<Rightarrow> OpenAIConfig \<Rightarrow>
    trace \<Rightarrow> (error + (step \<times> json) list) \<times> trace" where
  "generate env userPrompt steps messages config tr =
     (if length (trim (apiKey config)) = 0 then (Inl (Error ''OpenAI API missing''), tr)
      else if \<not> startsWith (organization config) ''org-''
      then (Inl (Error ''OpenAI org missing or invalid''), tr)
      else
        (case generate_try env userPrompt steps messages config tr of
           (Inr result, tr') \<Rightarrow> (Inr result, tr')
         | (Inl e, tr') \<Rightarrow>
             (let errorMessage =
                    ''Something went wrong. '' @
                    (if NODE_ENV_production env then [] else message e)
              in (Inl (Error errorMessage),
                  if NODE_ENV_production env then tr'
                  else tr'\<lparr>console := console tr' @ [errorMessage]\<rparr>))))"

section \<open>The entry point: \<open>action\<close>\<close>

definition instances_template :: string where
  \<open>instances_template =
     ''\<newline>'' @
     ''You are WebstudioGPT a no-code tool for designers that generates a JSON representation of UI markup.\<newline>'' @
     ''\<newline>'' @
     ''Without using any dependency or external library, generate a JSON object for the following request:\<newline>'' @
     ''\<newline>'' @
     ''<!--prompt-content-->\<newline>'' @
     ''\<newline>'' @
     ''Respond in valid JSON that strictly follows the TypeScript definitions below:\<newline>'' @
     ''\<newline>'' @
     ''```typescript\<newline>'' @
     ''type EmbedTemplateText = {\<newline>'' @
     ''  type: "text";\<newline>'' @
     ''  value: string;\<newline>'' @
     ''};\<newline>'' @
     ''\<newline>'' @
     ''type EmbedTemplateInstance = {\<newline>'' @
     ''  type: "instance";\<newline>'' @
     ''  /*\<newline>'' @
     ''    component can be:\<newline>'' @
     ''    - Box: a container element\<newline>'' @
     ''    - Heading: typography element used for headings and titles\<newline>'' @
     ''    - TextBlock: typography element for generic blocks of text (eg. a paragraph)\<newline>'' @
     ''    - Link: a text link\<newline>'' @
     ''    - List: a bulleted or numbere list container element\<newline>'' @
     ''    - List Item: a item in a List component\<newline>'' @
     ''    - Input: an input field component\<newline>'' @
     ''    - Label: a label for an Input or TextArea component\<newline>'' @
     ''    - TextArea: a multi line input field component\<newline>'' @
     ''    - RadioButton: a radio input component\<newline>'' @
     ''    - Checkbox: a checkbox field\<newline>'' @
     ''    - Button: a button component\<newline>'' @
     ''  */\<newline>'' @
     ''  component: string;\<newline>'' @
     ''  children: Array<EmbedTemplateInstance | EmbedTemplateText>;\<newline>'' @
     ''};\<newline>'' @
     ''\<newline>'' @
     ''type JSONResult = Array<EmbedTemplateInstance | EmbedTemplateText>\<newline>'' @
     ''```\<newline>'' @
     ''\<newline>'' @
     ''Below is an example of valid output:\<newline>'' @
     ''\<newline>'' @
     ''```json\<newline>'' @
     ''[\<newline>'' @
     ''  { type: "text", value: "hello" },\<newline>'' @
     ''  {\<newline>'' @
     ''    type: "instance",\<newline>'' @
     ''    component: "Box",\<newline>'' @
     ''    children: [\<newline>'' @
     ''      { type: "instance", component: "Box", children: [] },\<newline>'' @
     ''      { type: "text", value: "world" },\<newline>'' @
     ''    ],\<newline>'' @
     ''  },\<newline>'' @
     '']\<newline>'' @
     ''```\<newline>'' @
     ''\<newline>'' @
     ''Omit information like "props" that are not in the TypeScript definitions above.''\<close>

definition styles_template :: string where
  \<open>styles_template =
     ''Given the "input JSON" object representing a UI component structure provided in the previous message, your task is to generate a new JSON object representing **only** the styles for the components in that structure. Ensure that the existing properties such as "type" or "component" are not repeated in the output JSON. Don't generate styles for elements with "type" equal to "text".\<newline>'' @
     ''\<newline>'' @
     ''User Request that generated the "input JSON": "<!--prompt-content-->".\<newline>'' @
     ''\<newline>'' @
     ''Respond in valid JSON that strictly follows the TypeScript definitions below:\<newline>'' @
     ''\<newline>'' @
     ''```typescript\<newline>'' @
     ''type JSONResult = EmbedTemplateStyles[];\<newline>'' @
     ''\<newline>'' @
     ''type EmbedTemplateStyles = {\<newline>'' @
     ''  styles: EmbedTemplateStyleDecl[],\<newline>'' @
     ''  children?: EmbedTemplateStyles[]\<newline>'' @
     ''};\<newline>'' @
     ''\<newline>'' @
     ''type EmbedTemplateStyleDecl = {\<newline>'' @
     ''  state?: string,\<newline>'' @
     ''  /*\<newline>'' @
     ''   property's values are camelCase e.g. flexDirection.\<newline>'' @
     ''  */\<newline>'' @
     ''  property: string;\<newline>'' @
     ''  value:\<newline>'' @
     ''    | {\<newline>'' @
     ''        type: "keyword";\<newline>'' @
     ''        value: string;\<newline>'' @
     ''      }\<newline>'' @
     ''    | {\<newline>'' @
     ''        type: "fontFamily";\<newline>'' @
     ''        value: string[];\<newline>'' @
     ''      }\<newline>'' @
     ''    | {\<newline>'' @
     ''        type: "rgb";\<newline>'' @
     ''        r: number;\<newline>'' @
     ''        g: number;\<newline>'' @
     ''        b: number;\<newline>'' @
     ''        alpha: number;\<newline>'' @
     ''      }\<newline>'' @
     ''    | {\<newline>'' @
     ''        type: "invalid";\<newline>'' @
     ''        value: string;\<newline>'' @
     ''      }\<newline>'' @
     ''    | {\<newline>'' @
     ''        type: "unset";\<newline>'' @
     ''        value: "";\<newline>'' @
     ''      }\<newline>'' @
     ''    | Units;\<newline>'' @
     ''};\<newline>'' @
     ''\<newline>'' @
     ''type Units = {\<newline>'' @
     ''  type: "unit";\<newline>'' @
     ''  value: number;\<newline>'' @
     ''  /* unit is a ValidCSSUnit (string) or the string literal "number" for unitless numbers */\<newline>'' @
     ''  unit: ValidCSSUnit | "number";\<newline>'' @
     ''};\<newline>'' @
     ''```\<newline>'' @
     ''\<newline>'' @
     ''Comments in the code block provide further context for the immediate key that follows.\<newline>'' @
     ''\<newline>'' @
     ''Example result:\<newline>'' @
     ''\<newline>'' @
     ''```json\<newline>'' @
     ''[{"styles":[{"property":"display","value":{"type":"keyword","value":"flex"}},{"property":"flexDirection","value":{"type":"keyword","value": "column"}}],"children":[{"styles":[{"property":"marginBottom","value":{"type":"unit","value": 10,"unit":"px"}}]},{"styles":[{"property":"marginBottom","value":{"type":"unit","value": 10,"unit":"px"}}]}]}]\<newline>'' @
     ''```''\<close>

fun templates :: "step \<Rightarrow> string" where
  "templates Instances = instances_template"
| "templates Styles = styles_template"

text \<open>
  The text entries of the submitted form under the three keys of the schema, in the
  order they were appended.
\<close>

record form_entries =
  prompt_entries :: "string list"
  steps_entries :: "string list"
  messages_entries :: "string list"

text \<open>The form as \<open>schema.parse\<close> returns it.\<close>

record form_data =
  form_prompt :: string
  form_steps :: "step list"
  form_messages :: "string option list"

text \<open>
  \<open>zfd.text(z.string().max(280))\<close>: an empty text counts as missing, and a key given
  more than once is an array, not a string.
\<close>

definition parse_prompt :: "string list \<Rightarrow> issue + string" where
  "parse_prompt entries =
     (case entries of
        [] \<Rightarrow> Inl PromptRequired
      | [p] \<Rightarrow>
          if p = [] then Inl PromptRequired
          else if 280 < length p then Inl PromptTooBig
          else Inr p
      | _ \<Rightarrow> Inl PromptNotString)"

text \<open>\<open>zfd.repeatableOfType(zfd.text(StepSchema))\<close>, from index \<open>i\<close>.\<close>

fun parse_steps :: "nat \<Rightarrow> string list \<Rightarrow> issue list \<times> step list" where
  "parse_steps i [] = ([], [])"
| "parse_steps i (s # ss) =
     (case parse_steps (Suc i) ss of (issues, steps) \<Rightarrow>
        (case StepSchema s of
           None \<Rightarrow> (StepInvalid i # issues, steps)
         | Some st \<Rightarrow> (issues, st # steps)))"

text \<open>
  \<open>zfd.repeatableOfType(zfd.text().optional())\<close>, from index \<open>i\<close>. The inner
  \<open>zfd.text()\<close> turns an empty text into \<open>undefined\<close> and then requires a string, and
  \<open>optional\<close>, which is put around it, lets only an entry through that is \<open>undefined\<close>
  before that: an empty entry is an issue, any other entry is a string.
\<close>

fun parse_messages :: "nat \<Rightarrow> string list \<Rightarrow> issue list \<times> string option list" where
  "parse_messages i [] = ([], [])"
| "parse_messages i (m # ms) =
     (case parse_messages (Suc i) ms of (issues, rest) \<Rightarrow>
        if m = [] then (MessageRequired i # issues, rest)
        else (issues, Some m # rest))"

text \<open>\<open>schema.parse\<close>: every issue is collected, and any issue throws.\<close>

definition schema_parse :: "environment \<Rightarrow> form_entries \<Rightarrow> error + form_data" where
  "schema_parse env form =
     (case parse_steps 0 (steps_entries form) of (step_issues, steps) \<Rightarrow>
        (case parse_messages 0 (messages_entries form) of (message_issues, messages) \<Rightarrow>
           (case parse_prompt (prompt_entries form) of
              Inl i \<Rightarrow> Inl (ZodError (zod_message env (i # step_issues @ message_issues)))
            | Inr p \<Rightarrow>
                if step_issues @ message_issues = [] then
                  Inr \<lparr>form_prompt = p, form_steps = steps, form_messages = messages\<rparr>
                else Inl (ZodError (zod_message env (step_issues @ message_issues))))))"

text \<open>\<open>formData.messages[index]\<close>, which is \<open>undefined\<close> beyond the end.\<close>

definition message_entry :: "string option list \<Rightarrow> nat \<Rightarrow> string option" where
  "message_entry ms index = (if index < length ms then ms ! index else None)"

text \<open>
  \<open>steps.map((_, index) => ...)\<close> over the indices of the steps: the entry of
  \<open>formData.messages\<close> at the index is parsed when it is a string, and is \<open>null\<close>
  when it is \<open>undefined\<close>, which it is beyond the end of the entries.
\<close>

fun messages_for_steps :: "environment \<Rightarrow> string option list \<Rightarrow> nat list \<Rightarrow> error + json list" where
  "messages_for_steps env ms [] = Inr []"
| "messages_for_steps env ms (index # rest) =
     (case message_entry ms index of
        None \<Rightarrow>
          (case messages_for_steps env ms rest of
             Inl e \<Rightarrow> Inl e
           | Inr js \<Rightarrow> Inr (JNull # js))
      | Some m \<Rightarrow>
          (case JSON_parse env m of
             Inl e \<Rightarrow> Inl (SyntaxError e)
           | Inr j \<Rightarrow>
               (case messages_for_steps env ms rest of
                  Inl e \<Rightarrow> Inl e
                | Inr js \<Rightarrow> Inr (j # js))))"

text \<open>What \<open>action\<close> returns.\<close>

datatype payload =
    Generated "(step \<times> json) list"
  | Errors string
  | ErrorsArray "string list"

text \<open>
  The request is what \<open>request.formData()\<close> resolves to, or \<open>Inl\<close> the message of the
  error it rejects with.
\<close>

definition action :: "environment \<Rightarrow> string + form_entries \<Rightarrow> trace \<Rightarrow> payload \<times> trace" where
  "action env request tr =
     (if \<not> isFeatureEnabled_ai env then (ErrorsArray [''Feature not available''], tr)
      else
        (case request of
           Inl m \<Rightarrow> (Errors m, tr)
         | Inr form \<Rightarrow>
             (case schema_parse env form of
                Inl e \<Rightarrow> (Errors (message e), tr)
              | Inr formData \<Rightarrow>
                  (case messages_for_steps env (form_messages formData)
                          [0 ..< length (form_steps formData)] of
                     Inl e \<Rightarrow> (Errors (message e), tr)
                   | Inr messages \<Rightarrow>
                       (case generate env (trim (form_prompt formData))
                               (map (\<lambda>step. (step, templates step)) (form_steps formData))
                               messages
                               \<lparr>apiKey = (case OPENAI_KEY env of None \<Rightarrow> [] | Some k \<Rightarrow> k),
                                organization = (case OPENAI_ORG env of None \<Rightarrow> [] | Some org \<Rightarrow> org),
                                model = Gpt_3_5_turbo,
                                maxTokens = 3000\<rparr>
                               tr of
                          (Inl e, tr') \<Rightarrow> (Errors (message e), tr')
                        | (Inr result, tr') \<Rightarrow> (Generated result, tr'))))))"

section \<open>Vocabulary of the properties\<close>

text \<open>The two kinds of code node that the visitor keeps.\<close>

definition json_tagged :: "string option \<times> string \<Rightarrow> bool" where
  "json_tagged node = (fst node = Some ''json'')"

definition untagged :: "string option \<times> string \<Rightarrow> bool" where
  "untagged node = (fst node = None \<or> fst node = Some [])"

text \<open>\<open>String.prototype.includes\<close>: the second string occurs in the first.\<close>

fun includes_str :: "string \<Rightarrow> string \<Rightarrow> bool" where
  "includes_str [] m = (m = [])"
| "includes_str (c # cs) m = (startsWith (c # cs) m \<or> includes_str cs m)"

text \<open>The original text, which ends the error message outside production.\<close>

definition error_tail :: "environment \<Rightarrow> string \<Rightarrow> string list" where
  "error_tail env text = (if NODE_ENV_production env then [] else [text])"


text \<open>
  The template with its substitution marker replaced by the prompt, as the specification
  words it: the prompt is put in the place of the first marker as it is.
\<close>

definition marker_replaced_by :: "string \<Rightarrow> string \<Rightarrow> string" where
  "marker_replaced_by template prompt =
     (case first_match prompt_marker template of
        None \<Rightarrow> template
      | Some (before, after) \<Rightarrow> before @ prompt @ after)"

text \<open>
  A list of \<open>messages\<close> entries cut to \<open>n\<close> entries, or filled up to \<open>n\<close> entries
  with the text \<open>null\<close>.
\<close>

definition align_messages :: "nat \<Rightarrow> string list \<Rightarrow> string list" where
  "align_messages n ms = take n (ms @ replicate n ''null'')"

section \<open>A test double of the environment\<close>

text \<open>
  The environment is played by stand-ins where a property is evaluated on a concrete
  input. They answer as the libraries do on the few texts they are given below: \<open>[]\<close>,
  \<open>{}\<close> and \<open>null\<close> parse as JSON and the other texts do not, the three fenced texts have the
  code nodes listed, and an empty array passes both validators. The service answers
  every request with the text \<open>[]\<close>.
\<close>

definition stub_JSON_parse :: "string \<Rightarrow> string + json" where
  "stub_JSON_parse s =
     (if s = ''[]'' then Inr (JArr [])
      else if s = ''{}'' then Inr (JObj [])
      else if s = ''null'' then Inr JNull
      else Inl ''Unexpected token'')"

definition stub_parseMarkdown :: "string \<Rightarrow> mdast" where
  "stub_parseMarkdown s =
     (if s = ''```\<newline>{}\<newline>```\<newline>```json\<newline>[]\<newline>```''
      then Parent [Code None ''{}'', Code (Some ''json'') ''[]'']
      else if s = ''```json\<newline>{}\<newline>```\<newline>```json\<newline>[]\<newline>```''
      then Parent [Code (Some ''json'') ''{}'', Code (Some ''json'') ''[]'']
      else if s = ''```\<newline>oops\<newline>```''
      then Parent [Code None ''oops'']
      else Parent [Leaf])"

definition stub_validate :: "json \<Rightarrow> string + unit" where
  "stub_validate j = (if isArray j then Inr () else Inl ''Expected array'')"

definition stub_fetch :: "nat \<Rightarrow> completion_request \<Rightarrow> string + http_response" where
  "stub_fetch n req =
     Inr \<lparr>ok = True, status = 200, statusText = ''OK'',
          json_body = Inr \<lparr>choices = [\<lparr>choice_message = Some \<lparr>response_content = Some ''[]''\<rparr>\<rparr>]\<rparr>\<rparr>"

definition stub_environment :: environment where
  "stub_environment =
     \<lparr>isFeatureEnabled_ai = True,
      NODE_ENV_production = False,
      OPENAI_KEY = Some ''sk-test'',
      OPENAI_ORG = Some ''org-test'',
      JSON_parse = stub_JSON_parse,
      JSON_stringify = (\<lambda>j. if j = JArr [] then ''[]'' else ''{}''),
      parseMarkdown = stub_parseMarkdown,
      WsEmbedTemplate_parse = stub_validate,
      EmbedTemplateStyles_array_parse = stub_validate,
      zod_message = (\<lambda>issues. ''Invalid form''),
      fetch = stub_fetch,
      not_iterable_message = ''object is not iterable'',
      undefined_property_message = ''Cannot read properties of undefined''\<rparr>"

definition empty_trace :: trace where
  "empty_trace = \<lparr>requests = [], console = []\<rparr>"

definition button_request :: "string list \<Rightarrow> form_entries" where
  "button_request ms =
     \<lparr>prompt_entries = [''make a button''], steps_entries = [''instances''], messages_entries = ms\<rparr>"

definition untagged_then_json :: string where
  "untagged_then_json = ''```\<newline>{}\<newline>```\<newline>```json\<newline>[]\<newline>```''"

definition two_json_blocks :: string where
  "two_json_blocks = ''```json\<newline>{}\<newline>```\<newline>```json\<newline>[]\<newline>```''"

definition unparseable_block :: string where
  "unparseable_block = ''```\<newline>oops\<newline>```''"


definition stub_config :: OpenAIConfig where
  "stub_config = \<lparr>apiKey = ''sk-test'', organization = ''org-test'', model = Gpt_3_5_turbo, maxTokens = 3000\<rparr>"

definition two_steps :: "(step \<times> string) list" where
  "two_steps = [(Instances, ''Make <!--prompt-content-->''), (Styles, ''Style <!--prompt-content-->'')]"

definition stub_completion :: completion where
  "stub_completion = \<lparr>choices = [\<lparr>choice_message = Some \<lparr>response_content = Some ''[]''\<rparr>\<rparr>]\<rparr>"

section \<open>Extraction\<close>

lemma visit_code_cases:
  "visit_code n acc =
     (if json_tagged n then trim (snd n) # acc
      else if untagged n then acc @ [trim (snd n)]
      else acc)"
  by (cases n) (simp add: visit_code_def json_tagged_def untagged_def)

lemma json_tagged_not_untagged: "json_tagged n \<Longrightarrow> \<not> untagged n"
  by (auto simp: json_tagged_def untagged_def)

lemma fold_visit_code:
  "fold visit_code nodes acc =
     rev (map (trim \<circ> snd) (filter json_tagged nodes)) @ acc @
     map (trim \<circ> snd) (filter untagged nodes)"
proof (induction nodes arbitrary: acc)
  case Nil
  then show ?case by simp
next
  case (Cons n nodes)
  have step: "fold visit_code (n # nodes) acc = fold visit_code nodes (visit_code n acc)"
    by simp
  consider (j) "json_tagged n" | (u) "\<not> json_tagged n" "untagged n"
    | (o) "\<not> json_tagged n" "\<not> untagged n"
    by blast
  then show ?case
  proof cases
    case j
    then have "visit_code n acc = trim (snd n) # acc"
      by (subst visit_code_cases) simp
    with j json_tagged_not_untagged [OF j] show ?thesis
      unfolding step by (simp add: Cons.IH)
  next
    case u
    then have "visit_code n acc = acc @ [trim (snd n)]"
      by (subst visit_code_cases) simp
    with u show ?thesis
      unfolding step by (simp add: Cons.IH)
  next
    case o
    then have "visit_code n acc = acc"
      by (subst visit_code_cases) simp
    with o show ?thesis
      unfolding step by (simp add: Cons.IH)
  qed
qed

lemma collect_code_blocks_eq:
  "collect_code_blocks nodes =
     rev (map (trim \<circ> snd) (filter json_tagged nodes)) @
     map (trim \<circ> snd) (filter untagged nodes)"
  by (simp add: collect_code_blocks_def fold_visit_code)

lemma getJSONCodeBlock_candidate:
  assumes "JSON_parse env (trim text) = Inl m"
    and "collect_code_blocks (code_nodes (parseMarkdown env text)) = c # cs"
  shows "getJSONCodeBlock env text =
           (case JSON_parse env c of
              Inr j \<Rightarrow> Inr j
            | Inl _ \<Rightarrow> Inl (Error (join ''\<newline>\<newline>'' (''Parsing failed'' # error_tail env text))))"
  using assms by (simp add: getJSONCodeBlock_def error_tail_def split: sum.splits)

lemma getJSONCodeBlock_no_candidate:
  assumes "JSON_parse env (trim text) = Inl m"
    and "collect_code_blocks (code_nodes (parseMarkdown env text)) = []"
  shows "getJSONCodeBlock env text =
           Inl (Error (join ''\<newline>\<newline>''
                  (''Parsing failed'' # ''No code blocks found'' # error_tail env text)))"
  using assms by (simp add: getJSONCodeBlock_def error_tail_def)

lemma startsWith_includes: "startsWith s m \<Longrightarrow> includes_str s m"
  by (cases s) (simp_all add: startsWith_def)

lemma includes_append_left: "includes_str t m \<Longrightarrow> includes_str (p @ t) m"
  by (induction p) simp_all

lemma includes_middle: "includes_str (p @ m @ q) m"
  by (rule includes_append_left, rule startsWith_includes) (simp add: startsWith_def)

lemma includes_skip_prefix:
  assumes "includes_str (p @ t) (a # m)" and "a \<notin> set p"
  shows "includes_str t (a # m)"
  using assms by (induction p) (auto simp: startsWith_def)

lemma includes_join_second: "includes_str (join sep (p # m # rest)) m"
proof (cases rest)
  case Nil
  have "includes_str ((p @ sep) @ m @ []) m" by (rule includes_middle)
  with Nil show ?thesis by simp
next
  case (Cons x xs)
  have "includes_str ((p @ sep) @ m @ (sep @ join sep (x # xs))) m" by (rule includes_middle)
  with Cons show ?thesis by simp
qed

lemma parsing_failed_has_no_marker:
  "\<not> includes_str ''Parsing failed'' ''No code blocks found''"
  by (simp add: startsWith_def)

lemma parsing_failed_then_text:
  assumes "\<not> includes_str t ''No code blocks found''"
  shows "\<not> includes_str (''Parsing failed'' @ ''\<newline>\<newline>'' @ t) ''No code blocks found''"
proof
  assume "includes_str (''Parsing failed'' @ ''\<newline>\<newline>'' @ t) ''No code blocks found''"
  then have "includes_str ((''Parsing failed'' @ ''\<newline>\<newline>'') @ t) (CHR ''N'' # ''o code blocks found'')"
    by simp
  then have "includes_str t (CHR ''N'' # ''o code blocks found'')"
    by (rule includes_skip_prefix) simp
  with assms show False by simp
qed

subsection \<open>Evaluation on the test double\<close>

lemma trim_button: "trim ''make a button'' = ''make a button''"
  by (simp add: trim_def is_white_space_def)

lemma trim_key: "trim ''sk-test'' = ''sk-test''"
  by (simp add: trim_def is_white_space_def)

lemma trim_brackets: "trim ''[]'' = ''[]''"
  by (simp add: trim_def is_white_space_def)

lemma stub_simps:
  "JSON_parse stub_environment = stub_JSON_parse"
  "parseMarkdown stub_environment = stub_parseMarkdown"
  "NODE_ENV_production stub_environment = False"
  "fetch stub_environment = stub_fetch"
  "WsEmbedTemplate_parse stub_environment = stub_validate"
  by (simp_all add: stub_environment_def)

lemma trim_fixtures:
  "trim untagged_then_json = untagged_then_json"
  "trim two_json_blocks = two_json_blocks"
  "trim unparseable_block = unparseable_block"
  "trim ''hello'' = ''hello''"
  "trim ''oops'' = ''oops''"
  "trim ''{}'' = ''{}''"
  by (simp_all add: trim_def is_white_space_def untagged_then_json_def two_json_blocks_def
      unparseable_block_def)

subsection \<open>The block tagged \<open>json\<close> wins\<close>

text \<open>
  Claim C2. When the text does not parse as JSON and its code blocks are one block tagged
  \<open>json\<close> and at least one block with no tag, in any order, extraction returns what
  \<open>JSON.parse\<close> makes of the trimmed content of the tagged block: its value, or the
  extraction error when that content is not JSON.
\<close>

theorem json_block_preferred:
  assumes "JSON_parse env (trim text) = Inl m"
    and "filter json_tagged (code_nodes (parseMarkdown env text)) = [(Some ''json'', v)]"
    and "\<exists>n \<in> set (code_nodes (parseMarkdown env text)). untagged n"
  shows "getJSONCodeBlock env text =
           (case JSON_parse env (trim v) of
              Inr j \<Rightarrow> Inr j
            | Inl _ \<Rightarrow> Inl (Error (join ''\<newline>\<newline>'' (''Parsing failed'' # error_tail env text))))"
proof -
  have "collect_code_blocks (code_nodes (parseMarkdown env text)) =
          trim v # map (trim \<circ> snd) (filter untagged (code_nodes (parseMarkdown env text)))"
    by (simp add: collect_code_blocks_eq assms(2))
  from getJSONCodeBlock_candidate [OF assms(1) this] show ?thesis .
qed

text \<open>
  The untagged block comes first in this text, and the tagged block is the one returned.
\<close>

theorem json_block_preferred_witness:
  "JSON_parse stub_environment (trim untagged_then_json) = Inl ''Unexpected token'' \<and>
   filter json_tagged (code_nodes (parseMarkdown stub_environment untagged_then_json)) =
     [(Some ''json'', ''[]'')] \<and>
   (\<exists>n \<in> set (code_nodes (parseMarkdown stub_environment untagged_then_json)). untagged n) \<and>
   getJSONCodeBlock stub_environment untagged_then_json = Inr (JArr [])"
proof -
  have h1: "JSON_parse stub_environment (trim untagged_then_json) = Inl ''Unexpected token''"
    by (simp add: stub_simps trim_fixtures) (simp add: stub_JSON_parse_def untagged_then_json_def)
  have h2: "filter json_tagged (code_nodes (parseMarkdown stub_environment untagged_then_json)) =
      [(Some ''json'', ''[]'')]"
    by (simp add: stub_simps stub_parseMarkdown_def untagged_then_json_def json_tagged_def)
  have h3: "\<exists>n \<in> set (code_nodes (parseMarkdown stub_environment untagged_then_json)). untagged n"
    by (simp add: stub_simps stub_parseMarkdown_def untagged_then_json_def untagged_def)
  from json_block_preferred [OF h1 h2 h3] h1 h2 h3 show ?thesis
    by (simp add: stub_simps stub_JSON_parse_def trim_brackets)
qed

text \<open>
  Claim C10. With two or more blocks tagged \<open>json\<close> and no direct parse, the first
  candidate, the one extraction parses, is the tagged block that comes last in the
  document, since each tagged block is put in front of the ones before it.
\<close>

theorem last_json_block_is_candidate:
  assumes "JSON_parse env (trim text) = Inl m"
    and "filter json_tagged (code_nodes (parseMarkdown env text)) = earlier @ [(Some ''json'', v)]"
    and "earlier \<noteq> []"
  shows "(\<exists>rest. collect_code_blocks (code_nodes (parseMarkdown env text)) = trim v # rest) \<and>
         getJSONCodeBlock env text =
           (case JSON_parse env (trim v) of
              Inr j \<Rightarrow> Inr j
            | Inl _ \<Rightarrow> Inl (Error (join ''\<newline>\<newline>'' (''Parsing failed'' # error_tail env text))))"
proof -
  have c: "collect_code_blocks (code_nodes (parseMarkdown env text)) =
          trim v # (rev (map (trim \<circ> snd) earlier) @
            map (trim \<circ> snd) (filter untagged (code_nodes (parseMarkdown env text))))"
    by (simp add: collect_code_blocks_eq assms(2))
  from c getJSONCodeBlock_candidate [OF assms(1) c] show ?thesis by blast
qed

theorem last_json_block_is_candidate_witness:
  "JSON_parse stub_environment (trim two_json_blocks) = Inl ''Unexpected token'' \<and>
   filter json_tagged (code_nodes (parseMarkdown stub_environment two_json_blocks)) =
     [(Some ''json'', ''{}'')] @ [(Some ''json'', ''[]'')] \<and>
   [(Some ''json'', ''{}'')] \<noteq> [] \<and>
   (\<exists>rest. collect_code_blocks (code_nodes (parseMarkdown stub_environment two_json_blocks)) =
      trim ''[]'' # rest) \<and>
   getJSONCodeBlock stub_environment two_json_blocks = Inr (JArr [])"
proof -
  have h1: "JSON_parse stub_environment (trim two_json_blocks) = Inl ''Unexpected token''"
    by (simp add: stub_simps trim_fixtures) (simp add: stub_JSON_parse_def two_json_blocks_def)
  have h2: "filter json_tagged (code_nodes (parseMarkdown stub_environment two_json_blocks)) =
      [(Some ''json'', ''{}'')] @ [(Some ''json'', ''[]'')]"
    by (simp add: stub_simps stub_parseMarkdown_def two_json_blocks_def json_tagged_def)
  have h3: "[(Some ''json'', ''{}'')] \<noteq> ([] :: (string option \<times> string) list)" by simp
  from last_json_block_is_candidate [OF h1 h2 h3] h1 h2 show ?thesis
    by (simp add: stub_simps stub_JSON_parse_def trim_brackets)
qed

subsection \<open>The markers of the extraction error\<close>

text \<open>
  Claim C8. Let the text not parse as JSON. When no code block is tagged \<open>json\<close> or
  untagged, extraction fails with the message made of \<open>Parsing failed\<close>,
  \<open>No code blocks found\<close> and, outside production, the text; the message includes the
  marker \<open>No code blocks found\<close>. When there is a candidate and it does not parse,
  extraction fails with \<open>Parsing failed\<close> and, outside production, the text: the marker
  is not added, so the message does not include it unless the echoed text itself does.
\<close>

theorem extraction_error_markers:
  assumes "JSON_parse env (trim text) = Inl m"
  shows "((\<forall>n \<in> set (code_nodes (parseMarkdown env text)). \<not> json_tagged n \<and> \<not> untagged n) \<longrightarrow>
            getJSONCodeBlock env text =
              Inl (Error (join ''\<newline>\<newline>''
                     (''Parsing failed'' # ''No code blocks found'' # error_tail env text))) \<and>
            includes_str
              (join ''\<newline>\<newline>'' (''Parsing failed'' # ''No code blocks found'' # error_tail env text))
              ''No code blocks found'') \<and>
         (\<forall>c cs m'. collect_code_blocks (code_nodes (parseMarkdown env text)) = c # cs \<and>
              JSON_parse env c = Inl m' \<longrightarrow>
            getJSONCodeBlock env text =
              Inl (Error (join ''\<newline>\<newline>'' (''Parsing failed'' # error_tail env text))) \<and>
            (NODE_ENV_production env \<or> \<not> includes_str text ''No code blocks found'' \<longrightarrow>
              \<not> includes_str (join ''\<newline>\<newline>'' (''Parsing failed'' # error_tail env text))
                  ''No code blocks found''))"
proof (intro conjI impI allI)
  assume none: "\<forall>n \<in> set (code_nodes (parseMarkdown env text)). \<not> json_tagged n \<and> \<not> untagged n"
  then have "filter json_tagged (code_nodes (parseMarkdown env text)) = []"
    and "filter untagged (code_nodes (parseMarkdown env text)) = []"
    by (simp_all add: filter_empty_conv)
  then have "collect_code_blocks (code_nodes (parseMarkdown env text)) = []"
    by (simp add: collect_code_blocks_eq)
  from getJSONCodeBlock_no_candidate [OF assms this]
  show "getJSONCodeBlock env text =
          Inl (Error (join ''\<newline>\<newline>''
                 (''Parsing failed'' # ''No code blocks found'' # error_tail env text)))" .
next
  show "includes_str
          (join ''\<newline>\<newline>'' (''Parsing failed'' # ''No code blocks found'' # error_tail env text))
          ''No code blocks found''"
    by (rule includes_join_second)
next
  fix c cs m'
  assume a: "collect_code_blocks (code_nodes (parseMarkdown env text)) = c # cs \<and>
             JSON_parse env c = Inl m'"
  from getJSONCodeBlock_candidate [OF assms conjunct1 [OF a]] a
  show "getJSONCodeBlock env text =
          Inl (Error (join ''\<newline>\<newline>'' (''Parsing failed'' # error_tail env text)))"
    by simp
next
  fix c cs m'
  assume "NODE_ENV_production env \<or> \<not> includes_str text ''No code blocks found''"
  then show "\<not> includes_str (join ''\<newline>\<newline>'' (''Parsing failed'' # error_tail env text))
                 ''No code blocks found''"
  proof (cases "NODE_ENV_production env")
    case True
    then show ?thesis
      using parsing_failed_has_no_marker by (simp add: error_tail_def)
  next
    case False
    assume "NODE_ENV_production env \<or> \<not> includes_str text ''No code blocks found''"
    with False have "\<not> includes_str text ''No code blocks found''" by simp
    from parsing_failed_then_text [OF this] False show ?thesis
      by (simp add: error_tail_def)
  qed
qed

theorem extraction_error_markers_witness:
  "JSON_parse stub_environment (trim ''hello'') = Inl ''Unexpected token'' \<and>
   code_nodes (parseMarkdown stub_environment ''hello'') = [] \<and>
   getJSONCodeBlock stub_environment ''hello'' =
     Inl (Error ''Parsing failed\<newline>\<newline>No code blocks found\<newline>\<newline>hello'') \<and>
   JSON_parse stub_environment (trim unparseable_block) = Inl ''Unexpected token'' \<and>
   collect_code_blocks (code_nodes (parseMarkdown stub_environment unparseable_block)) = [''oops''] \<and>
   JSON_parse stub_environment ''oops'' = Inl ''Unexpected token'' \<and>
   \<not> includes_str unparseable_block ''No code blocks found'' \<and>
   getJSONCodeBlock stub_environment unparseable_block =
     Inl (Error (''Parsing failed\<newline>\<newline>'' @ unparseable_block)) \<and>
   \<not> includes_str (''Parsing failed\<newline>\<newline>'' @ unparseable_block) ''No code blocks found''"
proof -
  have a1: "JSON_parse stub_environment (trim ''hello'') = Inl ''Unexpected token''"
    by (simp add: stub_simps trim_fixtures) (simp add: stub_JSON_parse_def)
  have a2: "\<forall>n \<in> set (code_nodes (parseMarkdown stub_environment ''hello'')).
              \<not> json_tagged n \<and> \<not> untagged n"
    by (simp add: stub_simps stub_parseMarkdown_def)
  have b1: "JSON_parse stub_environment (trim unparseable_block) = Inl ''Unexpected token''"
    by (simp add: stub_simps trim_fixtures) (simp add: stub_JSON_parse_def unparseable_block_def)
  have b2: "collect_code_blocks (code_nodes (parseMarkdown stub_environment unparseable_block)) = [''oops'']"
    by (simp add: stub_simps stub_parseMarkdown_def unparseable_block_def collect_code_blocks_def
        visit_code_def trim_fixtures)
  have b3: "JSON_parse stub_environment ''oops'' = Inl ''Unexpected token''"
    by (simp add: stub_simps stub_JSON_parse_def)
  have b4: "\<not> includes_str unparseable_block ''No code blocks found''"
    by (simp add: unparseable_block_def startsWith_def)
  from extraction_error_markers [OF a1] a2
  have A: "getJSONCodeBlock stub_environment ''hello'' =
     Inl (Error ''Parsing failed\<newline>\<newline>No code blocks found\<newline>\<newline>hello'')"
    by (simp add: error_tail_def stub_simps)
  from extraction_error_markers [OF b1] b2 b3 b4
  have B: "getJSONCodeBlock stub_environment unparseable_block =
     Inl (Error (''Parsing failed\<newline>\<newline>'' @ unparseable_block)) \<and>
   \<not> includes_str (''Parsing failed\<newline>\<newline>'' @ unparseable_block) ''No code blocks found''"
    by (simp add: error_tail_def stub_simps)
  have a3: "code_nodes (parseMarkdown stub_environment ''hello'') = []"
    by (simp add: stub_simps stub_parseMarkdown_def)
  from a1 a3 A b1 b2 b3 b4 B show ?thesis by blast
qed

section \<open>The chain\<close>

lemma complete_fn_trace:
  "snd (complete_fn env config msgs tr) = tr\<lparr>requests := requests tr @ [chat_request config msgs]\<rparr>"
  by (simp add: complete_fn_def Let_def split: sum.splits)

lemma chain_loop_last_step:
  assumes "Suc i = length steps"
    and "history_for_step env messages i responses = Inr h"
  shows "snd (chain_loop env (complete_fn env config) prompt steps messages i responses tr) =
           tr\<lparr>requests := requests tr @
             [chat_request config
                (h @ [user_message (trim (replace_prompt_content (snd (steps ! i)) prompt))])]\<rparr>"
proof -
  let ?msgs = "h @ [user_message (trim (replace_prompt_content (snd (steps ! i)) prompt))]"
  obtain res tr' where c: "complete_fn env config ?msgs tr = (res, tr')"
    by (cases "complete_fn env config ?msgs tr")
  with complete_fn_trace [of env config ?msgs tr]
  have tr': "tr' = tr\<lparr>requests := requests tr @ [chat_request config ?msgs]\<rparr>"
    by simp
  have i: "i < length steps" using assms(1) by simp
  show ?thesis
  proof (cases res)
    case (Inl e)
    with c i assms(2) tr' show ?thesis
      by (subst chain_loop.simps) simp
  next
    case (Inr cmpl)
    show ?thesis
    proof (cases "first_choice_content env cmpl")
      case (Inl e)
      with c i assms(2) tr' Inr show ?thesis
        by (subst chain_loop.simps) simp
    next
      case r: (Inr content)
      have "chain_loop env (complete_fn env config) prompt steps messages (Suc i)
              (responses @ [(fst (steps ! i), content)]) tr' =
            (Inr (responses @ [(fst (steps ! i), content)]), tr')"
        using assms(1) by (subst chain_loop.simps) simp
      with c i assms(2) tr' Inr r show ?thesis
        by (subst chain_loop.simps) simp
    qed
  qed
qed

lemma chain_loop_first_step:
  assumes "0 < length steps"
    and "history_for_step env messages 0 [] = Inr h0"
    and "client (h0 @ [user_message (trim (replace_prompt_content (snd (steps ! 0)) prompt))]) tr = (Inr c0, tr1)"
    and "first_choice_content env c0 = Inr r0"
  shows "getChainForPrompt env client prompt steps messages tr =
           chain_loop env client prompt steps messages (Suc 0) [(fst (steps ! 0), r0)] tr1"
  unfolding getChainForPrompt_def using assms
  by (subst chain_loop.simps) simp

lemma stub_first_step:
  "complete_fn stub_environment stub_config
     ([] @ [user_message (trim (replace_prompt_content ''Make <!--prompt-content-->'' ''a button''))])
     empty_trace =
   (Inr stub_completion,
    \<lparr>requests = [chat_request stub_config
        [user_message (trim (replace_prompt_content ''Make <!--prompt-content-->'' ''a button''))]],
     console = []\<rparr>)"
  by (simp add: complete_fn_def stub_simps stub_fetch_def stub_completion_def empty_trace_def Let_def)

lemma stub_first_content: "first_choice_content stub_environment stub_completion = Inr ''[]''"
  by (simp add: first_choice_content_def stub_completion_def)

text \<open>
  A prompt with no dollar sign is inserted as it is; a dollar pattern in the prompt is
  expanded, as \<open>replace\<close> does with a replacement string.
\<close>

lemma get_substitution_plain:
  "CHR 0x24 \<notin> set r \<Longrightarrow> get_substitution m b a r = r"
  by (induction r) auto

lemma replace_prompt_content_plain:
  assumes "first_match prompt_marker template = Some (before, after)"
    and "CHR 0x24 \<notin> set prompt"
  shows "replace_prompt_content template prompt = before @ prompt @ after"
  using assms by (simp add: replace_prompt_content_def get_substitution_plain)

lemma first_match_split:
  "first_match p s = Some (b, a) \<Longrightarrow> s = b @ p @ a"
proof (induction s arbitrary: b)
  case Nil
  then show ?case by (simp split: if_splits)
next
  case (Cons c cs)
  show ?case
  proof (cases "startsWith (c # cs) p")
    case True
    with Cons.prems have "b = []" and "a = drop (length p) (c # cs)" by simp_all
    moreover from True have "take (length p) (c # cs) = p" by (simp add: startsWith_def)
    ultimately show ?thesis
      using append_take_drop_id [of "length p" "c # cs"] by simp
  next
    case False
    with Cons.prems obtain b' where "first_match p cs = Some (b', a)" and "b = c # b'"
      by auto
    with Cons.IH [of b'] show ?thesis by simp
  qed
qed

lemma replace_expands_dollar_patterns:
  "replace_prompt_content ''Make <!--prompt-content-->'' ''$&'' = ''Make <!--prompt-content-->''"
  by (simp add: replace_prompt_content_def prompt_marker_def startsWith_def)

text \<open>
  The shape of the request for step 1. In a chain of two steps whose second entry of
  \<open>messages\<close> is \<open>null\<close>, once step 0 has returned the text \<open>r0\<close>, the request sent
  for step 1 carries exactly two messages: the assistant message with content \<open>r0\<close>,
  then the user message whose content is what \<open>replace\<close> makes of the template of
  step 1 and the prompt, trimmed.
\<close>

lemma synthesized_history_for_second_step:
  assumes "steps = [(s0, t0), (s1, t1)]"
    and "messages = [m0, JNull]"
    and "history_for_step env messages 0 [] = Inr h0"
    and "complete_fn env config (h0 @ [user_message (trim (replace_prompt_content t0 prompt))]) tr
           = (Inr c0, tr1)"
    and "first_choice_content env c0 = Inr r0"
  shows "requests (snd (getChainForPrompt env (complete_fn env config) prompt steps messages tr)) =
           requests tr1 @
           [chat_request config
              [assistant_message r0, user_message (trim (replace_prompt_content t1 prompt))]]"
proof -
  have first: "getChainForPrompt env (complete_fn env config) prompt steps messages tr =
      chain_loop env (complete_fn env config) prompt steps messages (Suc 0) [(s0, r0)] tr1"
    using chain_loop_first_step [of steps env messages h0 "complete_fn env config" prompt tr c0 tr1 r0]
      assms by simp
  have h: "history_for_step env messages (Suc 0) [(s0, r0)] = Inr [assistant_message r0]"
    by (simp add: history_for_step_def assms(2))
  have "Suc (Suc 0) = length steps" by (simp add: assms(1))
  from chain_loop_last_step [OF this h, of config prompt tr1] show ?thesis
    unfolding first by (simp add: assms(1))
qed

lemma synthesized_history_for_second_step_witness:
  "requests (snd (getChainForPrompt stub_environment (complete_fn stub_environment stub_config)
       ''a button'' two_steps [JNull, JNull] empty_trace)) =
     [chat_request stub_config
        [user_message (trim (replace_prompt_content ''Make <!--prompt-content-->'' ''a button''))],
      chat_request stub_config
        [assistant_message ''[]'',
         user_message (trim (replace_prompt_content ''Style <!--prompt-content-->'' ''a button''))]]"
proof -
  have h: "history_for_step stub_environment [JNull, JNull] 0 [] = Inr []"
    by (simp add: history_for_step_def)
  from synthesized_history_for_second_step
    [OF two_steps_def refl h stub_first_step stub_first_content]
  show ?thesis by simp
qed

text \<open>
  What \<open>replace\<close> makes of the template and the prompt is the template with the marker
  replaced by the prompt when the prompt has no dollar sign. The prompt \<open>$&\<close> stands for
  the match itself, so with it every template comes back unchanged.
\<close>

lemma replace_prompt_content_literal:
  "CHR 0x24 \<notin> set prompt \<Longrightarrow>
   replace_prompt_content template prompt = marker_replaced_by template prompt"
  by (simp add: replace_prompt_content_def marker_replaced_by_def get_substitution_plain
      split: option.splits)

lemma replace_dollar_ampersand:
  "replace_prompt_content template ''$&'' = template"
proof (cases "first_match prompt_marker template")
  case None
  then show ?thesis by (simp add: replace_prompt_content_def)
next
  case (Some ba)
  obtain b a where ba: "ba = (b, a)" by (cases ba)
  from first_match_split [of prompt_marker template b a] Some ba
  have "template = b @ prompt_marker @ a" by simp
  with Some ba show ?thesis by (simp add: replace_prompt_content_def)
qed

lemma plain_prompt_replaces_marker:
  "trim (replace_prompt_content ''Style <!--prompt-content-->'' ''a button'') = ''Style a button''"
  "trim (marker_replaced_by ''Style <!--prompt-content-->'' ''a button'') = ''Style a button''"
  by (simp_all add: replace_prompt_content_def marker_replaced_by_def prompt_marker_def
      startsWith_def trim_def is_white_space_def)

text \<open>
  Claim C3. In a chain of two steps with no explicit history for step 1, the request for
  step 1 carries exactly two messages, the assistant message with the response of step 0
  and then the user message of step 1. For the prompt \<open>a button\<close> and the template
  \<open>Style <!--prompt-content-->\<close> the content of that user message is the template
  with the marker replaced by the prompt. For the prompt \<open>$&\<close> it is not: the code
  sends the template with its marker still in it, where the marker replaced by the
  prompt gives \<open>Style $&\<close>.
\<close>

theorem dollar_prompt_keeps_marker:
  "map body_messages
     (requests (snd (getChainForPrompt stub_environment (complete_fn stub_environment stub_config)
        ''a button'' two_steps [JNull, JNull] empty_trace))) =
     [[user_message ''Make a button''],
      [assistant_message ''[]'', user_message ''Style a button'']] \<and>
   map body_messages
     (requests (snd (getChainForPrompt stub_environment (complete_fn stub_environment stub_config)
        ''$&'' two_steps [JNull, JNull] empty_trace))) =
     [[user_message ''Make <!--prompt-content-->''],
      [assistant_message ''[]'', user_message ''Style <!--prompt-content-->'']] \<and>
   trim (marker_replaced_by ''Style <!--prompt-content-->'' ''$&'') = ''Style $&''"
proof -
  have p: "map body_messages
     (requests (snd (getChainForPrompt stub_environment (complete_fn stub_environment stub_config)
        ''a button'' two_steps [JNull, JNull] empty_trace))) =
     [[user_message ''Make a button''],
      [assistant_message ''[]'', user_message ''Style a button'']]"
    by (simp add: getChainForPrompt_def chain_loop.simps history_for_step_def complete_fn_def
        stub_simps stub_fetch_def first_choice_content_def two_steps_def empty_trace_def
        chat_request_def replace_prompt_content_def prompt_marker_def startsWith_def
        trim_def is_white_space_def Let_def)
  have c: "map body_messages
     (requests (snd (getChainForPrompt stub_environment (complete_fn stub_environment stub_config)
        ''$&'' two_steps [JNull, JNull] empty_trace))) =
     [[user_message ''Make <!--prompt-content-->''],
      [assistant_message ''[]'', user_message ''Style <!--prompt-content-->'']]"
    by (simp add: getChainForPrompt_def chain_loop.simps history_for_step_def complete_fn_def
        stub_simps stub_fetch_def first_choice_content_def two_steps_def empty_trace_def
        chat_request_def replace_prompt_content_def prompt_marker_def startsWith_def
        trim_def is_white_space_def Let_def)
  have m: "trim (marker_replaced_by ''Style <!--prompt-content-->'' ''$&'') = ''Style $&''"
    by (simp add: marker_replaced_by_def prompt_marker_def startsWith_def trim_def
        is_white_space_def)
  from p c m show ?thesis by simp
qed

text \<open>
  Claim C4. In a chain of two steps whose second entry of \<open>messages\<close> is an explicit
  history, the request sent for step 1 carries that history followed by the user message
  of step 1, whatever step 0 returned: no assistant message is made of its response.
\<close>

theorem explicit_history_for_second_step:
  assumes "steps = [(s0, t0), (s1, t1)]"
    and "messages = [m0, JArr history]"
    and "history_for_step env messages 0 [] = Inr h0"
    and "complete_fn env config (h0 @ [user_message (trim (replace_prompt_content t0 prompt))]) tr
           = (Inr c0, tr1)"
    and "first_choice_content env c0 = Inr r0"
  shows "requests (snd (getChainForPrompt env (complete_fn env config) prompt steps messages tr)) =
           requests tr1 @
           [chat_request config
              (history @ [user_message (trim (replace_prompt_content t1 prompt))])]"
proof -
  have first: "getChainForPrompt env (complete_fn env config) prompt steps messages tr =
      chain_loop env (complete_fn env config) prompt steps messages (Suc 0) [(s0, r0)] tr1"
    using chain_loop_first_step [of steps env messages h0 "complete_fn env config" prompt tr c0 tr1 r0]
      assms by simp
  have h: "history_for_step env messages (Suc 0) [(s0, r0)] = Inr history"
    by (simp add: history_for_step_def assms(2))
  have "Suc (Suc 0) = length steps" by (simp add: assms(1))
  from chain_loop_last_step [OF this h, of config prompt tr1] show ?thesis
    unfolding first by (simp add: assms(1))
qed

theorem explicit_history_for_second_step_witness:
  "requests (snd (getChainForPrompt stub_environment (complete_fn stub_environment stub_config)
       ''a button'' two_steps [JNull, JArr [user_message ''x'']] empty_trace)) =
     [chat_request stub_config
        [user_message (trim (replace_prompt_content ''Make <!--prompt-content-->'' ''a button''))],
      chat_request stub_config
        [user_message ''x'',
         user_message (trim (replace_prompt_content ''Style <!--prompt-content-->'' ''a button''))]]"
proof -
  have h: "history_for_step stub_environment [JNull, JArr [user_message ''x'']] 0 [] = Inr []"
    by (simp add: history_for_step_def)
  from explicit_history_for_second_step
    [OF two_steps_def refl h stub_first_step stub_first_content]
  show ?thesis by simp
qed

section \<open>The orchestrator\<close>

text \<open>
  Claim C6. With an API key that is empty after trimming, or an organization that does
  not start with \<open>org-\<close>, \<open>generate\<close> throws the matching configuration error and the
  trace is the one it was given: no request has been sent.
\<close>

theorem config_checked_before_any_request:
  assumes "length (trim (apiKey config)) = 0 \<or> \<not> startsWith (organization config) ''org-''"
  shows "generate env userPrompt steps messages config tr =
           (Inl (Error (if length (trim (apiKey config)) = 0 then ''OpenAI API missing''
                        else ''OpenAI org missing or invalid'')), tr)"
  using assms by (auto simp: generate_def)

theorem config_checked_before_any_request_witness:
  "(length (trim (apiKey (stub_config\<lparr>apiKey := ''  ''\<rparr>))) = 0 \<or>
    \<not> startsWith (organization (stub_config\<lparr>apiKey := ''  ''\<rparr>)) ''org-'') \<and>
   generate stub_environment ''a button'' two_steps [JNull, JNull]
     (stub_config\<lparr>apiKey := ''  ''\<rparr>) empty_trace =
     (Inl (Error ''OpenAI API missing''), empty_trace) \<and>
   (length (trim (apiKey (stub_config\<lparr>organization := ''acme''\<rparr>))) = 0 \<or>
    \<not> startsWith (organization (stub_config\<lparr>organization := ''acme''\<rparr>)) ''org-'') \<and>
   generate stub_environment ''a button'' two_steps [JNull, JNull]
     (stub_config\<lparr>organization := ''acme''\<rparr>) empty_trace =
     (Inl (Error ''OpenAI org missing or invalid''), empty_trace)"
proof -
  have h1: "length (trim (apiKey (stub_config\<lparr>apiKey := ''  ''\<rparr>))) = 0 \<or>
    \<not> startsWith (organization (stub_config\<lparr>apiKey := ''  ''\<rparr>)) ''org-''"
    by (simp add: trim_def is_white_space_def)
  have h2: "length (trim (apiKey (stub_config\<lparr>organization := ''acme''\<rparr>))) = 0 \<or>
    \<not> startsWith (organization (stub_config\<lparr>organization := ''acme''\<rparr>)) ''org-''"
    by (simp add: startsWith_def)
  have k: "length (trim (apiKey (stub_config\<lparr>organization := ''acme''\<rparr>))) \<noteq> 0"
    by (simp add: stub_config_def trim_key)
  have e: "length (trim (apiKey (stub_config\<lparr>apiKey := ''  ''\<rparr>))) = 0"
    by (simp add: trim_def is_white_space_def)
  from config_checked_before_any_request [OF h1, of stub_environment "''a button''" two_steps
      "[JNull, JNull]" empty_trace]
    config_checked_before_any_request [OF h2, of stub_environment "''a button''" two_steps
      "[JNull, JNull]" empty_trace]
    h1 h2 k e
  show ?thesis by simp
qed











section \<open>The entry point\<close>

text \<open>
  Claim C5. With the feature flag off, \<open>action\<close> returns \<open>errors\<close> as an array holding
  one string, not as a string.
\<close>

theorem feature_disabled_returns_array:
  assumes "\<not> isFeatureEnabled_ai env"
  shows "action env request tr = (ErrorsArray [''Feature not available''], tr)"
  using assms by (simp add: action_def)

theorem feature_disabled_returns_array_witness:
  "\<not> isFeatureEnabled_ai (stub_environment\<lparr>isFeatureEnabled_ai := False\<rparr>) \<and>
   action (stub_environment\<lparr>isFeatureEnabled_ai := False\<rparr>) (Inr (button_request [])) empty_trace =
     (ErrorsArray [''Feature not available''], empty_trace)"
proof -
  have h: "\<not> isFeatureEnabled_ai (stub_environment\<lparr>isFeatureEnabled_ai := False\<rparr>)" by simp
  from feature_disabled_returns_array [OF h] h show ?thesis by simp
qed

text \<open>Every other return of \<open>action\<close> that reports errors gives a string.\<close>

lemma enabled_action_never_returns_array:
  assumes "isFeatureEnabled_ai env"
  shows "fst (action env request tr) \<noteq> ErrorsArray es"
  using assms by (auto simp: action_def split: sum.splits prod.splits)

lemma parse_messages_nonempty:
  "[] \<notin> set ms \<Longrightarrow> parse_messages i ms = ([], map Some ms)"
  by (induction ms arbitrary: i) auto

lemma align_messages_nonempty:
  "[] \<notin> set ms \<Longrightarrow> [] \<notin> set (align_messages n ms)"
  by (auto simp: align_messages_def dest: in_set_takeD)

lemma schema_parse_messages:
  assumes "[] \<notin> set (messages_entries form)" and "[] \<notin> set ms"
  shows "schema_parse env (form\<lparr>messages_entries := ms\<rparr>) =
           (case schema_parse env form of
              Inl e \<Rightarrow> Inl e
            | Inr fd \<Rightarrow> Inr (fd\<lparr>form_messages := map Some ms\<rparr>))"
  using assms
  by (simp add: schema_parse_def parse_messages_nonempty split: prod.splits sum.splits)

lemma parse_steps_length_le:
  "length (snd (parse_steps i ss)) \<le> length ss"
proof (induction ss arbitrary: i)
  case Nil
  then show ?case by simp
next
  case (Cons s ss)
  from Cons.IH [of "Suc i"] show ?case
    by (auto split: prod.splits option.splits)
qed

lemma schema_parse_fields:
  assumes "schema_parse env form = Inr fd" and "[] \<notin> set (messages_entries form)"
  shows "length (form_steps fd) \<le> length (steps_entries form)"
    and "form_messages fd = map Some (messages_entries form)"
proof -
  note len = parse_steps_length_le
  from assms show "form_messages fd = map Some (messages_entries form)"
    by (auto simp: schema_parse_def parse_messages_nonempty split: prod.splits sum.splits if_splits)
  from assms len [of 0 "steps_entries form"]
  show "length (form_steps fd) \<le> length (steps_entries form)"
    by (auto simp: schema_parse_def split: prod.splits sum.splits if_splits)
qed

lemma align_messages_entry:
  assumes "i < n"
  shows "message_entry (map Some (align_messages n ms)) i =
           Some (if i < length ms then ms ! i else ''null'')"
  using assms by (auto simp: message_entry_def align_messages_def nth_append)

lemma messages_for_steps_aligned:
  assumes "JSON_parse env ''null'' = Inr JNull"
    and "\<forall>i \<in> set idx. i < n"
  shows "messages_for_steps env (map Some (align_messages n ms)) idx =
         messages_for_steps env (map Some ms) idx"
  using assms(2)
proof (induction idx)
  case Nil
  then show ?case by simp
next
  case (Cons i idx)
  then have i: "i < n" and rest: "messages_for_steps env (map Some (align_messages n ms)) idx =
      messages_for_steps env (map Some ms) idx"
    by simp_all
  have e: "message_entry (map Some ms) i = (if i < length ms then Some (ms ! i) else None)"
    by (simp add: message_entry_def)
  show ?case
  proof (cases "i < length ms")
    case True
    with align_messages_entry [OF i, of ms] e rest show ?thesis
      by (simp cong: sum.case_cong)
  next
    case False
    with align_messages_entry [OF i, of ms] e rest assms(1) show ?thesis
      by (simp cong: sum.case_cong)
  qed
qed

lemma action_after_schema:
  assumes "schema_parse env form = Inr fd"
  shows "action env (Inr form) tr =
     (if \<not> isFeatureEnabled_ai env then (ErrorsArray [''Feature not available''], tr)
      else
        (case messages_for_steps env (form_messages fd) [0 ..< length (form_steps fd)] of
           Inl e \<Rightarrow> (Errors (message e), tr)
         | Inr messages \<Rightarrow>
             (case generate env (trim (form_prompt fd))
                     (map (\<lambda>step. (step, templates step)) (form_steps fd))
                     messages
                     \<lparr>apiKey = (case OPENAI_KEY env of None \<Rightarrow> [] | Some k \<Rightarrow> k),
                      organization = (case OPENAI_ORG env of None \<Rightarrow> [] | Some org \<Rightarrow> org),
                      model = Gpt_3_5_turbo,
                      maxTokens = 3000\<rparr>
                     tr of
                (Inl e, tr') \<Rightarrow> (Errors (message e), tr')
              | (Inr result, tr') \<Rightarrow> (Generated result, tr'))))"
  using assms by (simp add: action_def)

text \<open>
  Claim C1, as the code has it. \<open>action\<close> does not compare the number of \<open>messages\<close>
  entries with the number of \<open>steps\<close> entries. A request whose \<open>messages\<close> entries are
  not empty is handled as the same request with its \<open>messages\<close> cut to the number of
  steps, or filled up to it with the text \<open>null\<close>, which asks for the synthesized
  history.
\<close>

theorem action_aligns_messages_to_steps:
  assumes "[] \<notin> set (messages_entries form)"
    and "JSON_parse env ''null'' = Inr JNull"
  shows "action env (Inr form) tr =
         action env
           (Inr (form\<lparr>messages_entries :=
                        align_messages (length (steps_entries form)) (messages_entries form)\<rparr>)) tr"
proof -
  let ?n = "length (steps_entries form)"
  let ?ms = "messages_entries form"
  let ?form' = "form\<lparr>messages_entries := align_messages ?n ?ms\<rparr>"
  note s = schema_parse_messages [OF assms(1) align_messages_nonempty [OF assms(1)], of env ?n]
  show ?thesis
  proof (cases "schema_parse env form")
    case (Inl e)
    with s show ?thesis by (simp add: action_def)
  next
    case (Inr fd)
    note f = schema_parse_fields [OF Inr assms(1)]
    from s Inr have s': "schema_parse env ?form' =
        Inr (fd\<lparr>form_messages := map Some (align_messages ?n ?ms)\<rparr>)"
      by simp
    have "\<forall>i \<in> set [0 ..< length (form_steps fd)]. i < ?n"
      using f(1) by simp
    from messages_for_steps_aligned [OF assms(2) this, of ?ms]
    show ?thesis
      unfolding action_after_schema [OF Inr] action_after_schema [OF s']
      by (simp add: f(2) cong: sum.case_cong)
  qed
qed

text \<open>
  Of two \<open>messages\<close> entries for one step, the second is dropped, though it is not even
  JSON.
\<close>

theorem action_aligns_messages_to_steps_witness:
  "[] \<notin> set (messages_entries (button_request [''[]'', ''oops''])) \<and>
   JSON_parse stub_environment ''null'' = Inr JNull \<and>
   action stub_environment (Inr (button_request [''[]'', ''oops''])) empty_trace =
   action stub_environment (Inr (button_request [''[]''])) empty_trace"
proof -
  have h1: "[] \<notin> set (messages_entries (button_request [''[]'', ''oops'']))"
    by (simp add: button_request_def)
  have h2: "JSON_parse stub_environment ''null'' = Inr JNull"
    by (simp add: stub_simps stub_JSON_parse_def)
  from action_aligns_messages_to_steps [OF h1 h2, of empty_trace] h1 h2 show ?thesis
    by (simp add: button_request_def align_messages_def)
qed

text \<open>
  A request with one step and no \<open>messages\<close> entry is not rejected: the step is sent
  with no history and the output is returned.
\<close>

theorem mismatched_messages_not_rejected:
  "length (messages_entries (button_request [])) \<noteq> length (steps_entries (button_request [])) \<and>
   action stub_environment (Inr (button_request [])) empty_trace =
     (Generated [(Instances, JArr [])],
      \<lparr>requests =
         [chat_request
            \<lparr>apiKey = ''sk-test'', organization = ''org-test'', model = Gpt_3_5_turbo, maxTokens = 3000\<rparr>
            [user_message (trim (replace_prompt_content instances_template ''make a button''))]],
       console = []\<rparr>)"
  by (simp add: action_def stub_environment_def button_request_def empty_trace_def
      schema_parse_def parse_prompt_def StepSchema_def generate_def generate_try_def
      getChainForPrompt_def chain_loop.simps history_for_step_def complete_fn_def message_entry_def
      stub_fetch_def first_choice_content_def shape_response_def getJSONCodeBlock_def
      stub_JSON_parse_def validators_def stub_validate_def startsWith_def
      trim_button trim_key trim_brackets Let_def)

end
